theory Spec2Isabelle
  imports Complex_Main
begin

section \<open>JavaScript values used by the client\<close>

text \<open>
  A JavaScript \<^verbatim>\<open>number\<close> is a finite value, \<^verbatim>\<open>NaN\<close> or one of the two
  infinities. Every finite double is a rational number (\<^verbatim>\<open>-0\<close> is \<open>Fin 0\<close>), and the
  code only compares numbers and tests them for truthiness.
\<close>

datatype jsnum = Fin rat | NaN | PosInf | NegInf

text \<open>The relational operator \<^verbatim>\<open>a < b\<close> on numbers: false as soon as one side is NaN.\<close>

fun js_lt :: "jsnum \<Rightarrow> jsnum \<Rightarrow> bool" where
  "js_lt (Fin x) (Fin y) = (x < y)"
| "js_lt (Fin x) PosInf = True"
| "js_lt NegInf (Fin y) = True"
| "js_lt NegInf PosInf = True"
| "js_lt _ _ = False"

text \<open>\<^verbatim>\<open>a > b\<close> is \<^verbatim>\<open>b < a\<close>.\<close>

definition js_gt :: "jsnum \<Rightarrow> jsnum \<Rightarrow> bool" where
  "js_gt a b = js_lt b a"

text \<open>Truthiness of a number: \<^verbatim>\<open>0\<close>, \<^verbatim>\<open>-0\<close> and \<^verbatim>\<open>NaN\<close> are falsy.\<close>

fun num_truthy :: "jsnum \<Rightarrow> bool" where
  "num_truthy (Fin x) = (x \<noteq> 0)"
| "num_truthy NaN = False"
| "num_truthy PosInf = True"
| "num_truthy NegInf = True"

text \<open>
  Strings are \<open>string\<close>, the UTF-8 bytes of the JavaScript string. The code tests strings
  for emptiness, for ASCII prefixes and substrings, and against an ASCII character class;
  these tests give the same answer on the bytes as on the UTF-16 code units.
\<close>

text \<open>
  A value parsed from a JSON body (\<^verbatim>\<open>response.json()\<close>). An object is the list of its
  own properties.
\<close>

datatype json =
    JNull
  | JBool bool
  | JNum jsnum
  | JStr string
  | JArr "json list"
  | JObj "(string \<times> json) list"

text \<open>Truthiness, as \<^verbatim>\<open>!v\<close> and \<^verbatim>\<open>v || w\<close> use it.\<close>

fun truthy :: "json \<Rightarrow> bool" where
  "truthy JNull = False"
| "truthy (JBool b) = b"
| "truthy (JNum n) = num_truthy n"
| "truthy (JStr s) = (s \<noteq> [])"
| "truthy (JArr xs) = True"
| "truthy (JObj ps) = True"

text \<open>
  Reading the property \<^verbatim>\<open>v.name\<close> of a value that is not null, for the two names the
  client reads (\<^verbatim>\<open>message\<close> and \<^verbatim>\<open>transId\<close>): \<open>None\<close> is \<^verbatim>\<open>undefined\<close>.
  Primitives and arrays have no such property. Reading a property of \<^verbatim>\<open>null\<close>
  throws; the callers below handle that case before they come here.
\<close>

fun getProp :: "json \<Rightarrow> string \<Rightarrow> json option" where
  "getProp (JObj ps) name = map_of ps name"
| "getProp _ name = None"

text \<open>Truthiness of a possibly undefined value.\<close>

fun truthy_opt :: "json option \<Rightarrow> bool" where
  "truthy_opt None = False"
| "truthy_opt (Some v) = truthy v"

text \<open>Truthiness of an optional string field: missing and empty are both falsy.\<close>

fun str_truthy :: "string option \<Rightarrow> bool" where
  "str_truthy None = False"
| "str_truthy (Some s) = (s \<noteq> [])"

text \<open>Truthiness of an optional number field.\<close>

fun num_truthy_opt :: "jsnum option \<Rightarrow> bool" where
  "num_truthy_opt None = False"
| "num_truthy_opt (Some n) = num_truthy n"

subsection \<open>String operations\<close>

text \<open>\<^verbatim>\<open>s.startsWith(p)\<close>\<close>

fun startsWith :: "string \<Rightarrow> string \<Rightarrow> bool" where
  "startsWith s [] = True"
| "startsWith [] (p # ps) = False"
| "startsWith (c # cs) (p # ps) = (c = p \<and> startsWith cs ps)"

text \<open>\<^verbatim>\<open>s.includes(p)\<close>\<close>

fun includes_str :: "string \<Rightarrow> string \<Rightarrow> bool" where
  "includes_str [] p = (p = [])"
| "includes_str (c # cs) p = (startsWith (c # cs) p \<or> includes_str cs p)"

text \<open>\<^verbatim>\<open>s.replace(/\/$/, '')\<close>: one slash at the very end of the string is removed.\<close>

definition stripTrailingSlash :: "string \<Rightarrow> string" where
  "stripTrailingSlash s = (if s \<noteq> [] \<and> last s = CHR ''/'' then butlast s else s)"

text \<open>The decimal digits of a non-negative integer, as a template literal prints it.\<close>

definition digit :: "nat \<Rightarrow> char" where
  "digit d = ''0123456789'' ! d"

fun decimal :: "nat \<Rightarrow> string" where
  "decimal n = (if n < 10 then [digit n] else decimal (n div 10) @ [digit (n mod 10)])"

declare decimal.simps [simp del]

section \<open>Types of the SDK (types.ts)\<close>

datatype Environment = Sandbox | Live

datatype PaymentMedium = MobileMoney | OrangeMoney | FapshiMedium

record FapshiConfig =
  cfg_apiUser :: string
  cfg_apiKey :: string
  cfg_environment :: "Environment option"
  cfg_baseUrl :: "string option"

text \<open>
  The request payloads. A field the interface marks optional is an \<open>option\<close>; so is
  \<^verbatim>\<open>amount\<close>, which the client tests for presence at run time.
\<close>

record InitiatePayRequest =
  ip_amount :: "jsnum option"
  ip_email :: "string option"
  ip_redirectUrl :: "string option"
  ip_userId :: "string option"
  ip_externalId :: "string option"
  ip_message :: "string option"

record DirectPayRequest =
  dp_amount :: "jsnum option"
  dp_phone :: "string option"
  dp_medium :: "PaymentMedium option"
  dp_name :: "string option"
  dp_email :: "string option"
  dp_userId :: "string option"
  dp_externalId :: "string option"
  dp_message :: "string option"

record ExpirePayRequest =
  ep_transId :: "string option"

record PayoutRequest =
  po_amount :: "jsnum option"
  po_phone :: "string option"
  po_medium :: "PaymentMedium option"
  po_name :: "string option"
  po_email :: "string option"
  po_userId :: "string option"
  po_externalId :: "string option"
  po_message :: "string option"

section \<open>Errors\<close>

text \<open>
  \<^verbatim>\<open>FapshiError\<close>: the constructor stores its first argument as \<^verbatim>\<open>message\<close>
  whatever its type, so the message is a JavaScript value; \<open>statusCode = None\<close> is
  \<^verbatim>\<open>undefined\<close>.
\<close>

record FapshiError =
  message :: json
  statusCode :: "nat option"

text \<open>
  What a \<^verbatim>\<open>throw\<close> or a rejected promise carries: a \<^verbatim>\<open>FapshiError\<close>, another
  \<^verbatim>\<open>Error\<close> with its message, or a value that is not an \<^verbatim>\<open>Error\<close>.
\<close>

datatype thrown = Fapshi FapshiError | JsError string | NonError

definition validationError :: "string \<Rightarrow> thrown" where
  "validationError m = Fapshi \<lparr>message = JStr m, statusCode = None\<rparr>"

section \<open>The platform: URL, fetch\<close>

text \<open>
  A parsed \<^verbatim>\<open>URL\<close>: the text it was built from and its \<^verbatim>\<open>searchParams\<close>, the
  ordered list of name/value pairs.
\<close>

record url =
  href :: string
  searchParams :: "(string \<times> string) list"

text \<open>A value of a query-parameter record: \<^verbatim>\<open>string | number | undefined | null\<close>.\<close>

datatype qvalue = QStr string | QNum jsnum | QUndefined | QNull

text \<open>
  A \<^verbatim>\<open>SearchTransactionsParams\<close> object at run time: its own properties in the order
  the caller inserted them, which is the order \<^verbatim>\<open>Object.entries\<close> lists them in. The
  interface names the properties \<^verbatim>\<open>status\<close>, \<^verbatim>\<open>medium\<close>, \<^verbatim>\<open>start\<close>,
  \<^verbatim>\<open>end\<close>, \<^verbatim>\<open>amt\<close>, \<^verbatim>\<open>limit\<close> and \<^verbatim>\<open>sort\<close>, all optional, with
  \<^verbatim>\<open>amt\<close> and \<^verbatim>\<open>limit\<close> numbers and the others strings. A property is read with
  \<open>map_of\<close>.
\<close>

type_synonym SearchTransactionsParams = "(string \<times> qvalue) list"

datatype payload =
    InitiatePayBody InitiatePayRequest
  | DirectPayBody DirectPayRequest
  | ExpirePayBody ExpirePayRequest
  | PayoutBody PayoutRequest

text \<open>The two arguments of \<^verbatim>\<open>fetch(url.toString(), options)\<close>.\<close>

record http_request =
  req_url :: url
  req_method :: string
  req_headers :: "(string \<times> string) list"
  req_body :: "payload option"

text \<open>
  A response: its status, and what \<^verbatim>\<open>response.json()\<close> gives, the parsed value or
  (\<open>Inl\<close>) the message of the error it rejects with when the body is not JSON.
\<close>

record response =
  status :: nat
  body :: "string + json"

text \<open>\<^verbatim>\<open>response.ok\<close>, as node-fetch defines it: the status is in the range 200 to 299.\<close>

definition ok :: "response \<Rightarrow> bool" where
  "ok r = (200 \<le> status r \<and> status r < 300)"

datatype fetch_outcome = Rejected thrown | Responded response

text \<open>
  What the code takes from its platform, as parameters: the \<^verbatim>\<open>URL\<close> constructor
  (\<open>None\<close> when it throws a TypeError on a string that is no URL), \<^verbatim>\<open>String(n)\<close> on
  numbers, \<^verbatim>\<open>Number(s)\<close> on strings, \<^verbatim>\<open>fetch\<close>, and the messages of the two
  TypeErrors of the engine.
\<close>

record platform =
  parseURL :: "string \<Rightarrow> url option"
  numToString :: "jsnum \<Rightarrow> string"
  strToNumber :: "string \<Rightarrow> jsnum"
  fetch :: "http_request \<Rightarrow> fetch_outcome"
  invalidUrlMessage :: string
  nullPropertyMessage :: string

text \<open>The network: the requests handed to \<^verbatim>\<open>fetch\<close> so far, oldest first.\<close>

type_synonym net = "http_request list"

section \<open>The client (client.ts)\<close>

fun detectEnvironmentFromApiKey :: "string \<Rightarrow> Environment" where
  "detectEnvironmentFromApiKey apiKey =
     (if startsWith apiKey ''FAK_TEST_'' then Sandbox
      else if startsWith apiKey ''FAK_'' then Live
      else Sandbox)"

record FapshiClient =
  baseUrl :: string
  apiUser :: string
  apiKey :: string

definition new_FapshiClient :: "FapshiConfig \<Rightarrow> FapshiClient" where
  "new_FapshiClient config =
     (let fromEnvironment =
        (let environment =
           (case cfg_environment config of
              Some e \<Rightarrow> e
            | None \<Rightarrow> detectEnvironmentFromApiKey (cfg_apiKey config))
         in if environment = Live then ''https://live.fapshi.com''
            else ''https://sandbox.fapshi.com'')
      in \<lparr>baseUrl =
           (case cfg_baseUrl config of
              None \<Rightarrow> fromEnvironment
            | Some b \<Rightarrow> if b \<noteq> [] then stripTrailingSlash b else fromEnvironment),
          apiUser = cfg_apiUser config,
          apiKey = cfg_apiKey config\<rparr>)"

subsection \<open>The shared request operation\<close>

text \<open>\<^verbatim>\<open>String(value)\<close> on a query-parameter value.\<close>

fun toString :: "platform \<Rightarrow> qvalue \<Rightarrow> string" where
  "toString P (QStr s) = s"
| "toString P (QNum n) = numToString P n"
| "toString P QUndefined = ''undefined''"
| "toString P QNull = ''null''"

text \<open>One step of the \<^verbatim>\<open>forEach\<close> over \<^verbatim>\<open>Object.entries(queryParams)\<close>.\<close>

fun appendQuery :: "platform \<Rightarrow> url \<Rightarrow> string \<times> qvalue \<Rightarrow> url" where
  "appendQuery P u (key, v) =
     (if v \<noteq> QUndefined \<and> v \<noteq> QNull
      then u\<lparr>searchParams := searchParams u @ [(key, toString P v)]\<rparr>
      else u)"

text \<open>
  The part of \<^verbatim>\<open>request\<close> before the \<^verbatim>\<open>try\<close>: the URL, the headers and the
  options. \<open>None\<close> when the \<^verbatim>\<open>URL\<close> constructor throws.
\<close>

definition buildRequest ::
  "platform \<Rightarrow> FapshiClient \<Rightarrow> string \<Rightarrow> string \<Rightarrow> payload option \<Rightarrow>
   (string \<times> qvalue) list option \<Rightarrow> http_request option" where
  "buildRequest P c method path reqBody queryParams =
     (case parseURL P (baseUrl c @ path) of
        None \<Rightarrow> None
      | Some u \<Rightarrow>
          Some \<lparr>req_url =
                  (case queryParams of
                     None \<Rightarrow> u
                   | Some entries \<Rightarrow> foldl (appendQuery P) u entries),
                req_method = method,
                req_headers =
                  [(''Content-Type'', ''application/json''),
                   (''apiuser'', apiUser c),
                   (''apikey'', apiKey c)],
                req_body =
                  (if reqBody \<noteq> None \<and>
                      (method = ''POST'' \<or> method = ''PUT'' \<or> method = ''PATCH'')
                   then reqBody else None)\<rparr>)"

text \<open>
  The body of the \<^verbatim>\<open>try\<close>: \<open>Inl\<close> is what it throws. \<^verbatim>\<open>response.json()\<close> is awaited
  before \<^verbatim>\<open>response.ok\<close> is looked at, and \<^verbatim>\<open>error.message\<close> on a \<^verbatim>\<open>null\<close> body
  throws a TypeError.
\<close>

definition tryBody :: "platform \<Rightarrow> http_request \<Rightarrow> thrown + json" where
  "tryBody P req =
     (case fetch P req of
        Rejected t \<Rightarrow> Inl t
      | Responded r \<Rightarrow>
          (case body r of
             Inl m \<Rightarrow> Inl (JsError m)
           | Inr data \<Rightarrow>
               if \<not> ok r then
                 (if data = JNull then Inl (JsError (nullPropertyMessage P))
                  else
                    let fallback = JStr (''API request failed with status '' @ decimal (status r))
                    in Inl (Fapshi
                         \<lparr>message =
                            (case getProp data ''message'' of
                               None \<Rightarrow> fallback
                             | Some v \<Rightarrow> if truthy v then v else fallback),
                          statusCode = Some (status r)\<rparr>))
               else Inr data))"

text \<open>The \<^verbatim>\<open>catch\<close> block: the \<^verbatim>\<open>FapshiError\<close> that \<^verbatim>\<open>request\<close> rejects with.\<close>

fun catchHandler :: "thrown \<Rightarrow> FapshiError" where
  "catchHandler (Fapshi e) = e"
| "catchHandler (JsError errorMessage) =
     (if includes_str errorMessage ''failed'' \<or>
         includes_str errorMessage ''fetch'' \<or>
         includes_str errorMessage ''ENOTFOUND'' \<or>
         includes_str errorMessage ''ECONNREFUSED'' \<or>
         includes_str errorMessage ''ETIMEDOUT''
      then \<lparr>message = JStr (''Network error: Unable to connect to Fapshi API. '' @ errorMessage),
            statusCode = None\<rparr>
      else \<lparr>message = JStr errorMessage, statusCode = None\<rparr>)"
| "catchHandler NonError =
     \<lparr>message = JStr ''An unexpected error occurred'', statusCode = None\<rparr>"

text \<open>
  \<^verbatim>\<open>request\<close>: the result (\<open>Inl\<close> what the promise rejects with) and the network after
  the call. The \<^verbatim>\<open>URL\<close> constructor runs outside the \<^verbatim>\<open>try\<close>, so its TypeError
  is not turned into a \<^verbatim>\<open>FapshiError\<close>.
\<close>

definition request ::
  "platform \<Rightarrow> FapshiClient \<Rightarrow> string \<Rightarrow> string \<Rightarrow> payload option \<Rightarrow>
   (string \<times> qvalue) list option \<Rightarrow> net \<Rightarrow> (thrown + json) \<times> net" where
  "request P c method path reqBody queryParams w =
     (case buildRequest P c method path reqBody queryParams of
        None \<Rightarrow> (Inl (JsError (invalidUrlMessage P)), w)
      | Some req \<Rightarrow>
          ((case tryBody P req of
              Inl t \<Rightarrow> Inl (Fapshi (catchHandler t))
            | Inr data \<Rightarrow> Inr data),
           w @ [req]))"

subsection \<open>The public operations\<close>

definition initiatePay ::
  "platform \<Rightarrow> FapshiClient \<Rightarrow> InitiatePayRequest \<Rightarrow> net \<Rightarrow> (thrown + json) \<times> net" where
  "initiatePay P c req w =
     (if (case ip_amount req of None \<Rightarrow> True
          | Some a \<Rightarrow> \<not> num_truthy a \<or> js_lt a (Fin 100))
      then (Inl (validationError ''Amount must be at least 100''), w)
      else request P c ''POST'' ''/initiate-pay'' (Some (InitiatePayBody req)) None w)"

definition directPay ::
  "platform \<Rightarrow> FapshiClient \<Rightarrow> DirectPayRequest \<Rightarrow> net \<Rightarrow> (thrown + json) \<times> net" where
  "directPay P c req w =
     (if (case dp_amount req of None \<Rightarrow> True
          | Some a \<Rightarrow> \<not> num_truthy a \<or> js_lt a (Fin 100))
      then (Inl (validationError ''Amount must be at least 100''), w)
      else if \<not> str_truthy (dp_phone req)
      then (Inl (validationError ''Phone number is required''), w)
      else request P c ''POST'' ''/direct-pay'' (Some (DirectPayBody req)) None w)"

definition getPaymentStatus ::
  "platform \<Rightarrow> FapshiClient \<Rightarrow> string \<Rightarrow> net \<Rightarrow> (thrown + json) \<times> net" where
  "getPaymentStatus P c transId w =
     (if transId = [] then (Inl (validationError ''Transaction ID is required''), w)
      else
        (case request P c ''GET'' (''/payment-status/'' @ transId) None None w of
           (Inl t, w') \<Rightarrow> (Inl t, w')
         | (Inr transaction, w') \<Rightarrow>
             if \<not> truthy transaction \<or> \<not> truthy_opt (getProp transaction ''transId'')
             then (Inl (Fapshi
                     \<lparr>message = JStr (''No transaction found with ID: '' @ transId),
                      statusCode = Some 404\<rparr>), w')
             else (Inr transaction, w')))"

definition expirePay ::
  "platform \<Rightarrow> FapshiClient \<Rightarrow> ExpirePayRequest \<Rightarrow> net \<Rightarrow> (thrown + json) \<times> net" where
  "expirePay P c req w =
     (if \<not> str_truthy (ep_transId req)
      then (Inl (validationError ''Transaction ID is required''), w)
      else request P c ''POST'' ''/expire-pay'' (Some (ExpirePayBody req)) None w)"

text \<open>
  The test \<^verbatim>\<open>/^[a-zA-Z0-9\-_]{1,100}$/.test(userId)\<close>: the character class, and a
  matcher for a class repeated between \<open>lo\<close> and \<open>hi\<close> times from the start of the
  string to its end.
\<close>

definition userIdClass :: "char \<Rightarrow> bool" where
  "userIdClass ch =
     (let n = (of_char ch :: nat)
      in (97 \<le> n \<and> n \<le> 122) \<or> (65 \<le> n \<and> n \<le> 90) \<or> (48 \<le> n \<and> n \<le> 57) \<or>
         ch = CHR ''-'' \<or> ch = CHR ''_'')"

fun matchClassRepeat :: "(char \<Rightarrow> bool) \<Rightarrow> nat \<Rightarrow> nat \<Rightarrow> string \<Rightarrow> bool" where
  "matchClassRepeat cls lo hi [] = (lo = 0)"
| "matchClassRepeat cls lo hi (ch # rest) =
     (0 < hi \<and> cls ch \<and> matchClassRepeat cls (lo - 1) (hi - 1) rest)"

definition userIdPatternTest :: "string \<Rightarrow> bool" where
  "userIdPatternTest userId = matchClassRepeat userIdClass 1 100 userId"

definition getTransactionsByUserId ::
  "platform \<Rightarrow> FapshiClient \<Rightarrow> string \<Rightarrow> net \<Rightarrow> (thrown + json) \<times> net" where
  "getTransactionsByUserId P c userId w =
     (if userId = [] then (Inl (validationError ''User ID is required''), w)
      else if \<not> userIdPatternTest userId
      then (Inl (validationError
              (''User ID must match pattern: ^[a-zA-Z0-9'' @ [CHR 0x5C] @ ''-_]{1,100}$'')), w)
      else request P c ''GET'' (''/transaction/'' @ userId) None None w)"

text \<open>
  \<^verbatim>\<open>ToNumber(value)\<close>, the conversion that \<^verbatim>\<open>value < 1\<close> and \<^verbatim>\<open>value > 100\<close>
  apply to a value compared with a number.
\<close>

fun toNumber :: "platform \<Rightarrow> qvalue \<Rightarrow> jsnum" where
  "toNumber P (QNum n) = n"
| "toNumber P (QStr s) = strToNumber P s"
| "toNumber P QUndefined = NaN"
| "toNumber P QNull = Fin 0"

text \<open>
  \<open>params\<close> is \<open>None\<close> when the argument is left out. \<^verbatim>\<open>params?.limit\<close> is
  \<^verbatim>\<open>undefined\<close> when there are no parameters, when the object has no \<^verbatim>\<open>limit\<close>
  property, or when that property holds \<^verbatim>\<open>undefined\<close>. The object itself is passed on
  as the query parameters.
\<close>

definition searchTransactions ::
  "platform \<Rightarrow> FapshiClient \<Rightarrow> SearchTransactionsParams option \<Rightarrow> net \<Rightarrow>
   (thrown + json) \<times> net" where
  "searchTransactions P c params w =
     (if (case params of
            None \<Rightarrow> False
          | Some ps \<Rightarrow>
              (case map_of ps ''limit'' of
                 None \<Rightarrow> False
               | Some limit \<Rightarrow>
                   limit \<noteq> QUndefined \<and>
                   (js_lt (toNumber P limit) (Fin 1) \<or> js_gt (toNumber P limit) (Fin 100))))
      then (Inl (validationError ''Limit must be between 1 and 100''), w)
      else request P c ''GET'' ''/search'' None params w)"

definition getBalance :: "platform \<Rightarrow> FapshiClient \<Rightarrow> net \<Rightarrow> (thrown + json) \<times> net" where
  "getBalance P c w = request P c ''GET'' ''/balance'' None None w"

definition payout ::
  "platform \<Rightarrow> FapshiClient \<Rightarrow> PayoutRequest \<Rightarrow> net \<Rightarrow> (thrown + json) \<times> net" where
  "payout P c req w =
     (if (case po_amount req of None \<Rightarrow> True
          | Some a \<Rightarrow> \<not> num_truthy a \<or> js_lt a (Fin 100))
      then (Inl (validationError ''Amount must be at least 100''), w)
      else if po_medium req = Some FapshiMedium
      then
        (if \<not> str_truthy (po_email req)
         then (Inl (validationError
                 (''Email is required when medium is '' @ [CHR 0x22] @ ''fapshi'' @ [CHR 0x22])), w)
         else request P c ''POST'' ''/payout'' (Some (PayoutBody req)) None w)
      else
        (if \<not> str_truthy (po_phone req)
         then (Inl (validationError
                 (''Phone is required when medium is not '' @ [CHR 0x22] @ ''fapshi'' @
                  [CHR 0x22] @ '' or not specified'')), w)
         else request P c ''POST'' ''/payout'' (Some (PayoutBody req)) None w))"

text \<open>
  The characters that the documentation of \<^verbatim>\<open>getTransactionsByUserId\<close> allows in a
  user id: letters, digits, hyphen and underscore.
\<close>

definition userIdAlphabet :: "char set" where
  "userIdAlphabet =
     set (''abcdefghijklmnopqrstuvwxyz'' @ ''ABCDEFGHIJKLMNOPQRSTUVWXYZ'' @ ''0123456789'' @ ''-_'')"

section \<open>Concrete inputs for the examples\<close>

text \<open>
  A platform whose \<^verbatim>\<open>URL\<close> constructor accepts the strings that start with
  \<^verbatim>\<open>https://\<close> and finds no query in them, and whose \<^verbatim>\<open>fetch\<close> answers every
  request with the given outcome.
\<close>

definition exampleParseURL :: "string \<Rightarrow> url option" where
  "exampleParseURL s =
     (if startsWith s ''https://'' then Some \<lparr>href = s, searchParams = []\<rparr> else None)"

fun exampleNumToString :: "jsnum \<Rightarrow> string" where
  "exampleNumToString (Fin q) = (if q < 0 then ''-'' else []) @ decimal (nat \<lfloor>\<bar>q\<bar>\<rfloor>)"
| "exampleNumToString NaN = ''NaN''"
| "exampleNumToString PosInf = ''Infinity''"
| "exampleNumToString NegInf = ''-Infinity''"

definition examplePlatform :: "fetch_outcome \<Rightarrow> platform" where
  "examplePlatform outcome =
     \<lparr>parseURL = exampleParseURL,
      numToString = exampleNumToString,
      strToNumber = (\<lambda>s. NaN),
      fetch = (\<lambda>req. outcome),
      invalidUrlMessage = ''Invalid URL'',
      nullPropertyMessage = ''Cannot read properties of null''\<rparr>"

definition exampleClient :: FapshiClient where
  "exampleClient =
     new_FapshiClient
       \<lparr>cfg_apiUser = ''user'', cfg_apiKey = ''FAK_TEST_key'',
        cfg_environment = None, cfg_baseUrl = None\<rparr>"

definition exampleOk :: fetch_outcome where
  "exampleOk = Responded \<lparr>status = 200, body = Inr (JObj [(''transId'', JStr ''abc123'')])\<rparr>"

definition exampleInitiatePay :: "jsnum option \<Rightarrow> InitiatePayRequest" where
  "exampleInitiatePay a =
     \<lparr>ip_amount = a, ip_email = None, ip_redirectUrl = None, ip_userId = None,
      ip_externalId = None, ip_message = None\<rparr>"

definition exampleDirectPay :: "jsnum option \<Rightarrow> DirectPayRequest" where
  "exampleDirectPay a =
     \<lparr>dp_amount = a, dp_phone = Some ''670000000'', dp_medium = None, dp_name = None,
      dp_email = None, dp_userId = None, dp_externalId = None, dp_message = None\<rparr>"

definition examplePayout ::
  "jsnum option \<Rightarrow> PaymentMedium option \<Rightarrow> string option \<Rightarrow> string option \<Rightarrow> PayoutRequest" where
  "examplePayout a m e ph =
     \<lparr>po_amount = a, po_phone = ph, po_medium = m, po_name = None,
      po_email = e, po_userId = None, po_externalId = None, po_message = None\<rparr>"

definition exampleSearch :: "jsnum option \<Rightarrow> SearchTransactionsParams" where
  "exampleSearch l =
     [(''sort'', QStr ''desc''), (''status'', QStr ''successful'')] @
     (case l of None \<Rightarrow> [] | Some n \<Rightarrow> [(''limit'', QNum n)]) @
     [(''start'', QStr ''2024-01-01'')]"

definition exampleSearchOk :: fetch_outcome where
  "exampleSearchOk = Responded \<lparr>status = 200, body = Inr (JArr [])\<rparr>"

definition exampleEntries :: "(string \<times> qvalue) list" where
  "exampleEntries =
     [(''status'', QStr ''successful''), (''medium'', QUndefined), (''amt'', QNull),
      (''limit'', QNum (Fin 20))]"

definition exampleBadRequest :: fetch_outcome where
  "exampleBadRequest =
     Responded \<lparr>status = 400, body = Inr (JObj [(''message'', JStr ''Invalid amount'')])\<rparr>"

definition exampleUnavailable :: fetch_outcome where
  "exampleUnavailable = Responded \<lparr>status = 503, body = Inr (JObj [])\<rparr>"

definition exampleEmptyMessage :: fetch_outcome where
  "exampleEmptyMessage =
     Responded \<lparr>status = 500, body = Inr (JObj [(''message'', JStr [])])\<rparr>"

definition exampleDnsFailure :: string where
  "exampleDnsFailure =
     ''request to https://sandbox.fapshi.com/balance failed, reason: '' @
     ''getaddrinfo ENOTFOUND sandbox.fapshi.com''"

definition exampleEmptyTransId :: fetch_outcome where
  "exampleEmptyTransId =
     Responded \<lparr>status = 200,
                body = Inr (JObj [(''transId'', JStr []), (''status'', JStr ''PENDING'')])\<rparr>"

definition exampleNullBody :: fetch_outcome where
  "exampleNullBody = Responded \<lparr>status = 200, body = Inr JNull\<rparr>"

section \<open>Facts about the shared request operation\<close>

text \<open>The definitions that evaluating an example unfolds.\<close>

lemmas example_defs =
  examplePlatform_def exampleClient_def exampleParseURL_def exampleOk_def
  exampleInitiatePay_def exampleDirectPay_def examplePayout_def exampleSearch_def
  new_FapshiClient_def request_def buildRequest_def tryBody_def ok_def validationError_def

lemma request_sends_url:
  "parseURL P (baseUrl c @ path) = Some u \<Longrightarrow>
   \<exists>req. snd (request P c method path reqBody queryParams w) = w @ [req] \<and>
     req_method req = method"
  by (simp add: request_def buildRequest_def)

lemma request_invalid_url:
  "buildRequest P c method path reqBody queryParams = None \<Longrightarrow>
   request P c method path reqBody queryParams w = (Inl (JsError (invalidUrlMessage P)), w)"
  by (simp add: request_def)

lemma request_silent:
  "snd (request P c method path reqBody queryParams w) = w \<Longrightarrow>
   request P c method path reqBody queryParams w = (Inl (JsError (invalidUrlMessage P)), w)"
  by (simp add: request_def split: option.splits)

lemma request_success:
  assumes "buildRequest P c method path reqBody queryParams = Some req"
    and "fetch P req = Responded r" and "ok r" and "body r = Inr data"
  shows "request P c method path reqBody queryParams w = (Inr data, w @ [req])"
  using assms by (simp add: request_def tryBody_def)

lemma foldl_appendQuery:
  "searchParams (foldl (appendQuery P) u entries) =
   searchParams u @
   map (\<lambda>(k, v). (k, toString P v)) (filter (\<lambda>(k, v). v \<noteq> QUndefined \<and> v \<noteq> QNull) entries)"
  by (induction entries arbitrary: u) auto

section \<open>Local validation of the amount\<close>

text \<open>
  The test \<^verbatim>\<open>!request.amount || request.amount < 100\<close> holds when the amount is
  missing, is \<^verbatim>\<open>NaN\<close>, or is below 100 (zero is both falsy and below 100).
\<close>

lemma amount_check:
  "(case a of None \<Rightarrow> True | Some n \<Rightarrow> \<not> num_truthy n \<or> js_lt n (Fin 100)) =
   (a = None \<or> a = Some NaN \<or> (\<exists>n. a = Some n \<and> js_lt n (Fin 100)))"
  by (cases a; cases "the a") auto

text \<open>
  C3. A request given to \<open>initiatePay\<close>, \<open>directPay\<close> or \<open>payout\<close> whose amount is
  missing or less than 100 is rejected with the \<^verbatim>\<open>FapshiError\<close> "Amount must be at
  least 100" (no status code) and the network is left as it was: no HTTP request is made.
  Conversely, whenever one of the three operations has handed a request to \<^verbatim>\<open>fetch\<close>,
  the amount was present, was a number and was not below 100.
\<close>

theorem amount_below_minimum_fails_locally:
  "((ip_amount r1 = None \<or> (\<exists>n. ip_amount r1 = Some n \<and> js_lt n (Fin 100))) \<longrightarrow>
      initiatePay P c r1 w = (Inl (validationError ''Amount must be at least 100''), w)) \<and>
   ((dp_amount r2 = None \<or> (\<exists>n. dp_amount r2 = Some n \<and> js_lt n (Fin 100))) \<longrightarrow>
      directPay P c r2 w = (Inl (validationError ''Amount must be at least 100''), w)) \<and>
   ((po_amount r3 = None \<or> (\<exists>n. po_amount r3 = Some n \<and> js_lt n (Fin 100))) \<longrightarrow>
      payout P c r3 w = (Inl (validationError ''Amount must be at least 100''), w)) \<and>
   (snd (initiatePay P c r1 w) \<noteq> w \<longrightarrow>
      (\<exists>n. ip_amount r1 = Some n \<and> n \<noteq> NaN \<and> \<not> js_lt n (Fin 100))) \<and>
   (snd (directPay P c r2 w) \<noteq> w \<longrightarrow>
      (\<exists>n. dp_amount r2 = Some n \<and> n \<noteq> NaN \<and> \<not> js_lt n (Fin 100))) \<and>
   (snd (payout P c r3 w) \<noteq> w \<longrightarrow>
      (\<exists>n. po_amount r3 = Some n \<and> n \<noteq> NaN \<and> \<not> js_lt n (Fin 100)))"
proof (intro conjI impI)
  assume "ip_amount r1 = None \<or> (\<exists>n. ip_amount r1 = Some n \<and> js_lt n (Fin 100))"
  then show "initiatePay P c r1 w = (Inl (validationError ''Amount must be at least 100''), w)"
    by (auto simp: initiatePay_def amount_check)
next
  assume "dp_amount r2 = None \<or> (\<exists>n. dp_amount r2 = Some n \<and> js_lt n (Fin 100))"
  then show "directPay P c r2 w = (Inl (validationError ''Amount must be at least 100''), w)"
    by (auto simp: directPay_def amount_check)
next
  assume "po_amount r3 = None \<or> (\<exists>n. po_amount r3 = Some n \<and> js_lt n (Fin 100))"
  then show "payout P c r3 w = (Inl (validationError ''Amount must be at least 100''), w)"
    by (auto simp: payout_def amount_check)
next
  assume "snd (initiatePay P c r1 w) \<noteq> w"
  then show "\<exists>n. ip_amount r1 = Some n \<and> n \<noteq> NaN \<and> \<not> js_lt n (Fin 100)"
    by (auto simp: initiatePay_def amount_check split: if_splits)
next
  assume "snd (directPay P c r2 w) \<noteq> w"
  then show "\<exists>n. dp_amount r2 = Some n \<and> n \<noteq> NaN \<and> \<not> js_lt n (Fin 100)"
    by (auto simp: directPay_def amount_check split: if_splits)
next
  assume "snd (payout P c r3 w) \<noteq> w"
  then show "\<exists>n. po_amount r3 = Some n \<and> n \<noteq> NaN \<and> \<not> js_lt n (Fin 100)"
    by (auto simp: payout_def amount_check split: if_splits)
qed

theorem amount_below_minimum_fails_locally_witness:
  "initiatePay (examplePlatform exampleOk) exampleClient (exampleInitiatePay (Some (Fin 50))) [] =
     (Inl (validationError ''Amount must be at least 100''), []) \<and>
   directPay (examplePlatform exampleOk) exampleClient (exampleDirectPay None) [] =
     (Inl (validationError ''Amount must be at least 100''), []) \<and>
   payout (examplePlatform exampleOk) exampleClient
       (examplePayout (Some (Fin (99 / 2))) None None (Some ''670000000'')) [] =
     (Inl (validationError ''Amount must be at least 100''), []) \<and>
   snd (initiatePay (examplePlatform exampleOk) exampleClient
          (exampleInitiatePay (Some (Fin 1000))) []) \<noteq> [] \<and>
   (\<exists>n. ip_amount (exampleInitiatePay (Some (Fin 1000))) = Some n \<and> n \<noteq> NaN \<and>
        \<not> js_lt n (Fin 100))"
proof -
  have low: "ip_amount (exampleInitiatePay (Some (Fin 50))) = None \<or>
      (\<exists>n. ip_amount (exampleInitiatePay (Some (Fin 50))) = Some n \<and> js_lt n (Fin 100))"
    by (simp add: exampleInitiatePay_def)
  have missing: "dp_amount (exampleDirectPay None) = None \<or>
      (\<exists>n. dp_amount (exampleDirectPay None) = Some n \<and> js_lt n (Fin 100))"
    by (simp add: exampleDirectPay_def)
  have frac: "po_amount (examplePayout (Some (Fin (99 / 2))) None None (Some ''670000000'')) = None \<or>
      (\<exists>n. po_amount (examplePayout (Some (Fin (99 / 2))) None None (Some ''670000000'')) = Some n \<and>
           js_lt n (Fin 100))"
    by (simp add: examplePayout_def)
  have sent: "snd (initiatePay (examplePlatform exampleOk) exampleClient
          (exampleInitiatePay (Some (Fin 1000))) []) \<noteq> []"
    by (simp add: initiatePay_def example_defs)
  note rejected = amount_below_minimum_fails_locally
      [of "exampleInitiatePay (Some (Fin 50))" "examplePlatform exampleOk" exampleClient "[]"
          "exampleDirectPay None"
          "examplePayout (Some (Fin (99 / 2))) None None (Some ''670000000'')"]
  note accepted = amount_below_minimum_fails_locally
      [of "exampleInitiatePay (Some (Fin 1000))" "examplePlatform exampleOk" exampleClient "[]"
          "exampleDirectPay None"
          "examplePayout (Some (Fin (99 / 2))) None None (Some ''670000000'')"]
  from rejected low missing frac sent accepted show ?thesis by blast
qed

section \<open>Base URL\<close>

lemma stripTrailingSlash_snoc: "stripTrailingSlash (t @ ''/'') = t"
  by (simp add: stripTrailingSlash_def)

lemma stripTrailingSlash_other: "\<not> (\<exists>t. s = t @ ''/'') \<Longrightarrow> stripTrailingSlash s = s"
  by (cases s rule: rev_cases) (auto simp: stripTrailingSlash_def)

text \<open>
  C2, as stated, fails: a configuration whose \<^verbatim>\<open>baseUrl\<close> is given as the empty string
  does not get that string (with its slash stripped) as base URL. The constructor tests
  \<^verbatim>\<open>config.baseUrl\<close> for truthiness, so the empty string counts as absent and the
  environment rule applies; here the key \<^verbatim>\<open>FAK_key\<close> selects the live URL.
\<close>

theorem empty_baseUrl_counterexample:
  "cfg_baseUrl \<lparr>cfg_apiUser = ''user'', cfg_apiKey = ''FAK_key'',
                cfg_environment = None, cfg_baseUrl = Some ''''\<rparr> = Some '''' \<and>
   stripTrailingSlash '''' = '''' \<and>
   baseUrl (new_FapshiClient \<lparr>cfg_apiUser = ''user'', cfg_apiKey = ''FAK_key'',
                cfg_environment = None, cfg_baseUrl = Some ''''\<rparr>) = ''https://live.fapshi.com''"
  by (simp add: new_FapshiClient_def stripTrailingSlash_def)

text \<open>
  C2, amended. The resolved base URL of a client is
  \<^item> the explicit \<^verbatim>\<open>baseUrl\<close> without its one trailing slash, when \<^verbatim>\<open>baseUrl\<close>
    is given and is not the empty string (and unchanged when it does not end in a slash);
  \<^item> otherwise (no \<^verbatim>\<open>baseUrl\<close>, or the empty string) the live URL when
    \<^verbatim>\<open>environment\<close> is live, or when \<^verbatim>\<open>environment\<close> is absent and the key starts
    with \<^verbatim>\<open>FAK_\<close> but not with \<^verbatim>\<open>FAK_TEST_\<close>;
  \<^item> otherwise the sandbox URL.
  So a non-empty \<^verbatim>\<open>baseUrl\<close> wins over \<^verbatim>\<open>environment\<close>, and \<^verbatim>\<open>environment\<close>
  wins over the key prefix.
\<close>

theorem resolved_baseUrl:
  "(\<forall>t. cfg_baseUrl config = Some (t @ ''/'') \<longrightarrow> baseUrl (new_FapshiClient config) = t) \<and>
   (\<forall>b. cfg_baseUrl config = Some b \<and> b \<noteq> [] \<and> \<not> (\<exists>t. b = t @ ''/'') \<longrightarrow>
        baseUrl (new_FapshiClient config) = b) \<and>
   (cfg_baseUrl config = None \<or> cfg_baseUrl config = Some [] \<longrightarrow>
      baseUrl (new_FapshiClient config) =
        (if cfg_environment config = Some Live \<or>
            (cfg_environment config = None \<and> startsWith (cfg_apiKey config) ''FAK_'' \<and>
             \<not> startsWith (cfg_apiKey config) ''FAK_TEST_'')
         then ''https://live.fapshi.com'' else ''https://sandbox.fapshi.com''))"
proof (intro conjI allI impI)
  fix t assume "cfg_baseUrl config = Some (t @ ''/'')"
  then show "baseUrl (new_FapshiClient config) = t"
    by (simp add: new_FapshiClient_def stripTrailingSlash_snoc)
next
  fix b assume "cfg_baseUrl config = Some b \<and> b \<noteq> [] \<and> \<not> (\<exists>t. b = t @ ''/'')"
  then show "baseUrl (new_FapshiClient config) = b"
    by (simp add: new_FapshiClient_def stripTrailingSlash_other)
next
  assume "cfg_baseUrl config = None \<or> cfg_baseUrl config = Some []"
  then show "baseUrl (new_FapshiClient config) =
        (if cfg_environment config = Some Live \<or>
            (cfg_environment config = None \<and> startsWith (cfg_apiKey config) ''FAK_'' \<and>
             \<not> startsWith (cfg_apiKey config) ''FAK_TEST_'')
         then ''https://live.fapshi.com'' else ''https://sandbox.fapshi.com'')"
    by (cases "cfg_environment config"; cases "the (cfg_environment config)")
       (auto simp: new_FapshiClient_def)
qed

theorem resolved_baseUrl_witness:
  "baseUrl (new_FapshiClient \<lparr>cfg_apiUser = ''user'', cfg_apiKey = ''FAK_key'',
       cfg_environment = Some Sandbox, cfg_baseUrl = Some ''https://example.com/api/''\<rparr>) =
     ''https://example.com/api'' \<and>
   baseUrl (new_FapshiClient \<lparr>cfg_apiUser = ''user'', cfg_apiKey = ''FAK_key'',
       cfg_environment = Some Sandbox, cfg_baseUrl = Some ''https://example.com''\<rparr>) =
     ''https://example.com'' \<and>
   baseUrl (new_FapshiClient \<lparr>cfg_apiUser = ''user'', cfg_apiKey = ''FAK_key'',
       cfg_environment = None, cfg_baseUrl = None\<rparr>) = ''https://live.fapshi.com'' \<and>
   baseUrl (new_FapshiClient \<lparr>cfg_apiUser = ''user'', cfg_apiKey = ''FAK_TEST_key'',
       cfg_environment = None, cfg_baseUrl = None\<rparr>) = ''https://sandbox.fapshi.com'' \<and>
   baseUrl (new_FapshiClient \<lparr>cfg_apiUser = ''user'', cfg_apiKey = ''FAK_key'',
       cfg_environment = Some Sandbox, cfg_baseUrl = None\<rparr>) = ''https://sandbox.fapshi.com''"
proof -
  have no_slash: "\<not> (\<exists>t. ''https://example.com'' = t @ ''/'')"
  proof
    assume "\<exists>t. ''https://example.com'' = t @ ''/''"
    then obtain t where "''https://example.com'' = t @ ''/''" ..
    then have "last ''https://example.com'' = last (t @ ''/'')" by (rule arg_cong)
    then show False by simp
  qed
  have a: "baseUrl (new_FapshiClient \<lparr>cfg_apiUser = ''user'', cfg_apiKey = ''FAK_key'',
       cfg_environment = Some Sandbox, cfg_baseUrl = Some ''https://example.com/api/''\<rparr>) =
     ''https://example.com/api''"
    using resolved_baseUrl [of "\<lparr>cfg_apiUser = ''user'', cfg_apiKey = ''FAK_key'',
       cfg_environment = Some Sandbox, cfg_baseUrl = Some ''https://example.com/api/''\<rparr>"]
    by simp
  have b: "baseUrl (new_FapshiClient \<lparr>cfg_apiUser = ''user'', cfg_apiKey = ''FAK_key'',
       cfg_environment = Some Sandbox, cfg_baseUrl = Some ''https://example.com''\<rparr>) =
     ''https://example.com''"
    using no_slash resolved_baseUrl [of "\<lparr>cfg_apiUser = ''user'', cfg_apiKey = ''FAK_key'',
       cfg_environment = Some Sandbox, cfg_baseUrl = Some ''https://example.com''\<rparr>"]
    by simp
  have c: "baseUrl (new_FapshiClient \<lparr>cfg_apiUser = ''user'', cfg_apiKey = ''FAK_key'',
       cfg_environment = None, cfg_baseUrl = None\<rparr>) = ''https://live.fapshi.com''"
    using resolved_baseUrl [of "\<lparr>cfg_apiUser = ''user'', cfg_apiKey = ''FAK_key'',
       cfg_environment = None, cfg_baseUrl = None\<rparr>"]
    by simp
  have d: "baseUrl (new_FapshiClient \<lparr>cfg_apiUser = ''user'', cfg_apiKey = ''FAK_TEST_key'',
       cfg_environment = None, cfg_baseUrl = None\<rparr>) = ''https://sandbox.fapshi.com''"
    using resolved_baseUrl [of "\<lparr>cfg_apiUser = ''user'', cfg_apiKey = ''FAK_TEST_key'',
       cfg_environment = None, cfg_baseUrl = None\<rparr>"]
    by simp
  have e: "baseUrl (new_FapshiClient \<lparr>cfg_apiUser = ''user'', cfg_apiKey = ''FAK_key'',
       cfg_environment = Some Sandbox, cfg_baseUrl = None\<rparr>) = ''https://sandbox.fapshi.com''"
    using resolved_baseUrl [of "\<lparr>cfg_apiUser = ''user'', cfg_apiKey = ''FAK_key'',
       cfg_environment = Some Sandbox, cfg_baseUrl = None\<rparr>"]
    by simp
  from a b c d e show ?thesis by simp
qed

section \<open>Payout: the field that the medium requires\<close>

text \<open>
  C4, as stated, fails: a payout of 100 with medium \<^verbatim>\<open>fapshi\<close> whose \<^verbatim>\<open>email\<close> is
  present but empty is rejected locally, and nothing is sent. The code tests
  \<^verbatim>\<open>!request.email\<close>, so an empty string counts as missing.
\<close>

theorem payout_empty_email_counterexample:
  "po_medium (examplePayout (Some (Fin 100)) (Some FapshiMedium) (Some '''') None) =
     Some FapshiMedium \<and>
   po_email (examplePayout (Some (Fin 100)) (Some FapshiMedium) (Some '''') None) = Some '''' \<and>
   payout (examplePlatform exampleOk) exampleClient
     (examplePayout (Some (Fin 100)) (Some FapshiMedium) (Some '''') None) [] =
     (Inl (validationError
        (''Email is required when medium is '' @ [CHR 0x22] @ ''fapshi'' @ [CHR 0x22])), [])"
  by (simp add: payout_def examplePayout_def)

text \<open>
  C4, amended. For a payout whose amount passes the amount check (a number, not below
  100):
  \<^item> medium \<^verbatim>\<open>fapshi\<close> with \<^verbatim>\<open>email\<close> missing or empty fails locally, nothing is sent;
  \<^item> medium \<^verbatim>\<open>fapshi\<close> with a non-empty \<^verbatim>\<open>email\<close> is the shared request operation on
    \<^verbatim>\<open>POST /payout\<close> with the request as body, whatever \<^verbatim>\<open>phone\<close> is;
  \<^item> medium unset or not \<^verbatim>\<open>fapshi\<close> with \<^verbatim>\<open>phone\<close> missing or empty fails locally,
    nothing is sent;
  \<^item> medium unset or not \<^verbatim>\<open>fapshi\<close> with a non-empty \<^verbatim>\<open>phone\<close> is the shared request
    operation on \<^verbatim>\<open>POST /payout\<close>;
  and in the two cases that proceed, a request is handed to \<^verbatim>\<open>fetch\<close> as soon as the
  \<^verbatim>\<open>URL\<close> constructor accepts the address.
\<close>

theorem payout_medium_validation:
  assumes "po_amount r = Some a" and "a \<noteq> NaN" and "\<not> js_lt a (Fin 100)"
  shows
  "(po_medium r = Some FapshiMedium \<and> (po_email r = None \<or> po_email r = Some []) \<longrightarrow>
      payout P c r w =
        (Inl (validationError
           (''Email is required when medium is '' @ [CHR 0x22] @ ''fapshi'' @ [CHR 0x22])), w)) \<and>
   (po_medium r = Some FapshiMedium \<and> (\<exists>e. po_email r = Some e \<and> e \<noteq> []) \<longrightarrow>
      payout P c r w = request P c ''POST'' ''/payout'' (Some (PayoutBody r)) None w) \<and>
   (po_medium r \<noteq> Some FapshiMedium \<and> (po_phone r = None \<or> po_phone r = Some []) \<longrightarrow>
      payout P c r w =
        (Inl (validationError
           (''Phone is required when medium is not '' @ [CHR 0x22] @ ''fapshi'' @ [CHR 0x22] @
            '' or not specified'')), w)) \<and>
   (po_medium r \<noteq> Some FapshiMedium \<and> (\<exists>ph. po_phone r = Some ph \<and> ph \<noteq> []) \<longrightarrow>
      payout P c r w = request P c ''POST'' ''/payout'' (Some (PayoutBody r)) None w) \<and>
   (parseURL P (baseUrl c @ ''/payout'') \<noteq> None \<longrightarrow>
      (\<exists>req. snd (request P c ''POST'' ''/payout'' (Some (PayoutBody r)) None w) = w @ [req] \<and>
         req_method req = ''POST'' \<and> req_body req = Some (PayoutBody r)))"
proof -
  have pass: "\<not> (case po_amount r of None \<Rightarrow> True
                 | Some a \<Rightarrow> \<not> num_truthy a \<or> js_lt a (Fin 100))"
    using assms by (cases a) auto
  show ?thesis
  proof (intro conjI impI)
    assume "po_medium r = Some FapshiMedium \<and> (po_email r = None \<or> po_email r = Some [])"
    with pass show "payout P c r w =
        (Inl (validationError
           (''Email is required when medium is '' @ [CHR 0x22] @ ''fapshi'' @ [CHR 0x22])), w)"
      by (auto simp: payout_def)
  next
    assume "po_medium r = Some FapshiMedium \<and> (\<exists>e. po_email r = Some e \<and> e \<noteq> [])"
    with pass show "payout P c r w = request P c ''POST'' ''/payout'' (Some (PayoutBody r)) None w"
      by (auto simp: payout_def)
  next
    assume "po_medium r \<noteq> Some FapshiMedium \<and> (po_phone r = None \<or> po_phone r = Some [])"
    with pass show "payout P c r w =
        (Inl (validationError
           (''Phone is required when medium is not '' @ [CHR 0x22] @ ''fapshi'' @ [CHR 0x22] @
            '' or not specified'')), w)"
      by (auto simp: payout_def)
  next
    assume "po_medium r \<noteq> Some FapshiMedium \<and> (\<exists>ph. po_phone r = Some ph \<and> ph \<noteq> [])"
    with pass show "payout P c r w = request P c ''POST'' ''/payout'' (Some (PayoutBody r)) None w"
      by (auto simp: payout_def)
  next
    assume "parseURL P (baseUrl c @ ''/payout'') \<noteq> None"
    then show "\<exists>req. snd (request P c ''POST'' ''/payout'' (Some (PayoutBody r)) None w) = w @ [req] \<and>
         req_method req = ''POST'' \<and> req_body req = Some (PayoutBody r)"
      by (auto simp: request_def buildRequest_def)
  qed
qed

theorem payout_medium_validation_witness:
  "payout (examplePlatform exampleOk) exampleClient
      (examplePayout (Some (Fin 5000)) (Some FapshiMedium) None (Some ''670000000'')) [] =
     (Inl (validationError
        (''Email is required when medium is '' @ [CHR 0x22] @ ''fapshi'' @ [CHR 0x22])), []) \<and>
   payout (examplePlatform exampleOk) exampleClient
      (examplePayout (Some (Fin 5000)) (Some MobileMoney) (Some ''a@b.cm'') None) [] =
     (Inl (validationError
        (''Phone is required when medium is not '' @ [CHR 0x22] @ ''fapshi'' @ [CHR 0x22] @
         '' or not specified'')), []) \<and>
   (\<exists>req. snd (payout (examplePlatform exampleOk) exampleClient
        (examplePayout (Some (Fin 5000)) (Some FapshiMedium) (Some ''a@b.cm'') None) []) = [req] \<and>
      req_method req = ''POST'' \<and>
      req_body req =
        Some (PayoutBody (examplePayout (Some (Fin 5000)) (Some FapshiMedium) (Some ''a@b.cm'') None))) \<and>
   (\<exists>req. snd (payout (examplePlatform exampleOk) exampleClient
        (examplePayout (Some (Fin 5000)) None None (Some ''670000000'')) []) = [req] \<and>
      req_method req = ''POST'')"
proof -
  have url: "parseURL (examplePlatform exampleOk) (baseUrl exampleClient @ ''/payout'') \<noteq> None"
    by (simp add: example_defs)
  have amt: "\<And>m e ph. po_amount (examplePayout (Some (Fin 5000)) m e ph) = Some (Fin 5000)"
    by (simp add: examplePayout_def)
  have num: "Fin 5000 \<noteq> NaN" "\<not> js_lt (Fin 5000) (Fin 100)"
    by simp_all
  have a: "payout (examplePlatform exampleOk) exampleClient
      (examplePayout (Some (Fin 5000)) (Some FapshiMedium) None (Some ''670000000'')) [] =
     (Inl (validationError
        (''Email is required when medium is '' @ [CHR 0x22] @ ''fapshi'' @ [CHR 0x22])), [])"
    using payout_medium_validation [OF amt num, of "Some FapshiMedium" None "Some ''670000000''"
        "examplePlatform exampleOk" exampleClient "[]"]
    by (simp add: examplePayout_def)
  have b: "payout (examplePlatform exampleOk) exampleClient
      (examplePayout (Some (Fin 5000)) (Some MobileMoney) (Some ''a@b.cm'') None) [] =
     (Inl (validationError
        (''Phone is required when medium is not '' @ [CHR 0x22] @ ''fapshi'' @ [CHR 0x22] @
         '' or not specified'')), [])"
    using payout_medium_validation [OF amt num, of "Some MobileMoney" "Some ''a@b.cm''" None
        "examplePlatform exampleOk" exampleClient "[]"]
    by (simp add: examplePayout_def)
  have c: "\<exists>req. snd (payout (examplePlatform exampleOk) exampleClient
        (examplePayout (Some (Fin 5000)) (Some FapshiMedium) (Some ''a@b.cm'') None) []) = [req] \<and>
      req_method req = ''POST'' \<and>
      req_body req =
        Some (PayoutBody (examplePayout (Some (Fin 5000)) (Some FapshiMedium) (Some ''a@b.cm'') None))"
    using url payout_medium_validation [OF amt num, of "Some FapshiMedium" "Some ''a@b.cm''" None
        "examplePlatform exampleOk" exampleClient "[]"]
    by (simp add: examplePayout_def)
  have d: "\<exists>req. snd (payout (examplePlatform exampleOk) exampleClient
        (examplePayout (Some (Fin 5000)) None None (Some ''670000000'')) []) = [req] \<and>
      req_method req = ''POST''"
    using url payout_medium_validation [OF amt num, of None None "Some ''670000000''"
        "examplePlatform exampleOk" exampleClient "[]"]
    by (auto simp add: examplePayout_def)
  from a b c d show ?thesis by blast
qed

section \<open>User id pattern\<close>

lemma matchClassRepeat_iff:
  "matchClassRepeat cls lo hi s = (lo \<le> length s \<and> length s \<le> hi \<and> (\<forall>ch \<in> set s. cls ch))"
  by (induction s arbitrary: lo hi) auto

lemma userIdClass_iff:
  "userIdClass ch =
   (ch \<in> userIdAlphabet)"
  by (cases ch) (simp add: userIdClass_def userIdAlphabet_def Let_def)

lemma userIdPatternTest_iff:
  "userIdPatternTest userId =
   (userId \<noteq> [] \<and> length userId \<le> 100 \<and>
    (\<forall>ch \<in> set userId.
       ch \<in> userIdAlphabet))"
  unfolding userIdPatternTest_def matchClassRepeat_iff userIdClass_iff
  by (cases userId) auto

text \<open>
  C7. \<open>getTransactionsByUserId\<close> fails locally, with a \<^verbatim>\<open>FapshiError\<close> without status
  code and with nothing sent, exactly when the user id is empty, contains a character that
  is not a letter, a digit, a hyphen or an underscore, or is longer than 100 characters.
  Every other user id (those that match the pattern) goes to the shared request operation
  on \<^verbatim>\<open>GET /transaction/<userId>\<close>, which hands a request to \<^verbatim>\<open>fetch\<close> as soon as the
  \<^verbatim>\<open>URL\<close> constructor accepts the address.
\<close>

theorem getTransactionsByUserId_validation:
  "((\<exists>e. getTransactionsByUserId P c userId w = (Inl (Fapshi e), w) \<and> statusCode e = None) =
      (userId = [] \<or>
       (\<exists>ch \<in> set userId.
          ch \<notin> userIdAlphabet) \<or>
       100 < length userId)) \<and>
   (userIdPatternTest userId \<longrightarrow>
      getTransactionsByUserId P c userId w =
        request P c ''GET'' (''/transaction/'' @ userId) None None w) \<and>
   (userIdPatternTest userId \<and> parseURL P (baseUrl c @ ''/transaction/'' @ userId) \<noteq> None \<longrightarrow>
      (\<exists>req. snd (getTransactionsByUserId P c userId w) = w @ [req] \<and> req_method req = ''GET''))"
proof (intro conjI impI)
  show "(\<exists>e. getTransactionsByUserId P c userId w = (Inl (Fapshi e), w) \<and> statusCode e = None) =
      (userId = [] \<or>
       (\<exists>ch \<in> set userId.
          ch \<notin> userIdAlphabet) \<or>
       100 < length userId)"
  proof (cases "userIdPatternTest userId")
    case True
    then have call: "getTransactionsByUserId P c userId w =
        request P c ''GET'' (''/transaction/'' @ userId) None None w"
      by (auto simp: getTransactionsByUserId_def userIdPatternTest_iff)
    have "\<not> (\<exists>e. request P c ''GET'' (''/transaction/'' @ userId) None None w =
                 (Inl (Fapshi e), w))"
    proof
      assume "\<exists>e. request P c ''GET'' (''/transaction/'' @ userId) None None w =
                 (Inl (Fapshi e), w)"
      then obtain e where e: "request P c ''GET'' (''/transaction/'' @ userId) None None w =
                 (Inl (Fapshi e), w)" ..
      then have "snd (request P c ''GET'' (''/transaction/'' @ userId) None None w) = w"
        by simp
      from request_silent [OF this] e show False by simp
    qed
    with call True show ?thesis
      by (auto simp: userIdPatternTest_iff)
  next
    case False
    then have "\<exists>e. getTransactionsByUserId P c userId w = (Inl (Fapshi e), w) \<and>
                 statusCode e = None"
      by (auto simp: getTransactionsByUserId_def validationError_def)
    with False show ?thesis
      by (auto simp: userIdPatternTest_iff)
  qed
next
  assume "userIdPatternTest userId"
  then show "getTransactionsByUserId P c userId w =
        request P c ''GET'' (''/transaction/'' @ userId) None None w"
    by (auto simp: getTransactionsByUserId_def userIdPatternTest_iff)
next
  assume a: "userIdPatternTest userId \<and>
             parseURL P (baseUrl c @ ''/transaction/'' @ userId) \<noteq> None"
  then have "getTransactionsByUserId P c userId w =
        request P c ''GET'' (''/transaction/'' @ userId) None None w"
    by (auto simp: getTransactionsByUserId_def userIdPatternTest_iff)
  moreover from a obtain u where "parseURL P (baseUrl c @ ''/transaction/'' @ userId) = Some u"
    by auto
  ultimately show "\<exists>req. snd (getTransactionsByUserId P c userId w) = w @ [req] \<and>
      req_method req = ''GET''"
    using request_sends_url [of P c "''/transaction/'' @ userId" u "''GET''" None None w]
    by simp
qed

theorem getTransactionsByUserId_validation_witness:
  "(\<exists>e. getTransactionsByUserId (examplePlatform exampleOk) exampleClient ''user 123'' [] =
        (Inl (Fapshi e), []) \<and> statusCode e = None) \<and>
   userIdPatternTest ''user-123_A'' \<and>
   (\<exists>req. snd (getTransactionsByUserId (examplePlatform exampleOk) exampleClient
                 ''user-123_A'' []) = [req] \<and> req_method req = ''GET'')"
proof -
  have bad: "\<exists>ch \<in> set ''user 123''.
      ch \<notin> userIdAlphabet"
    by (simp add: userIdAlphabet_def)
  have good: "userIdPatternTest ''user-123_A''"
    by (simp add: userIdPatternTest_def userIdClass_def)
  have url: "parseURL (examplePlatform exampleOk)
               (baseUrl exampleClient @ ''/transaction/'' @ ''user-123_A'') \<noteq> None"
    by (simp add: example_defs)
  from bad getTransactionsByUserId_validation
         [of "examplePlatform exampleOk" exampleClient "''user 123''" "[]"]
  have a: "\<exists>e. getTransactionsByUserId (examplePlatform exampleOk) exampleClient ''user 123'' [] =
        (Inl (Fapshi e), []) \<and> statusCode e = None"
    by blast
  from good url getTransactionsByUserId_validation
         [of "examplePlatform exampleOk" exampleClient "''user-123_A''" "[]"]
  have "\<exists>req. snd (getTransactionsByUserId (examplePlatform exampleOk) exampleClient
                 ''user-123_A'' []) = [] @ [req] \<and> req_method req = ''GET''"
    by blast
  then have b: "\<exists>req. snd (getTransactionsByUserId (examplePlatform exampleOk) exampleClient
                 ''user-123_A'' []) = [req] \<and> req_method req = ''GET''"
    by simp
  from a good b show ?thesis by blast
qed

section \<open>Search limit\<close>

text \<open>
  What the two comparisons of \<open>searchTransactions\<close> decide when the limit is a number
  other than \<^verbatim>\<open>NaN\<close>: a limit below 1 or above 100 (the infinities included) fails
  locally with "Limit must be between 1 and 100" and sends nothing; without parameters,
  without a limit, or with a limit from 1 to 100 the call is the shared request operation
  on \<^verbatim>\<open>GET /search\<close> with the parameters as query, which hands a request to
  \<^verbatim>\<open>fetch\<close> as soon as the \<^verbatim>\<open>URL\<close> constructor accepts the address.
\<close>

lemma searchTransactions_limit:
  "((\<exists>ps l. params = Some ps \<and> map_of ps ''limit'' = Some (QNum l) \<and>
        (l = NegInf \<or> l = PosInf \<or> (\<exists>q. l = Fin q \<and> (q < 1 \<or> 100 < q)))) \<longrightarrow>
      searchTransactions P c params w =
        (Inl (validationError ''Limit must be between 1 and 100''), w)) \<and>
   ((params = None \<or>
     (\<exists>ps. params = Some ps \<and>
        (map_of ps ''limit'' = None \<or> map_of ps ''limit'' = Some QUndefined \<or>
         (\<exists>q. map_of ps ''limit'' = Some (QNum (Fin q)) \<and> 1 \<le> q \<and> q \<le> 100)))) \<longrightarrow>
      searchTransactions P c params w = request P c ''GET'' ''/search'' None params w \<and>
      (parseURL P (baseUrl c @ ''/search'') \<noteq> None \<longrightarrow>
         (\<exists>req. snd (searchTransactions P c params w) = w @ [req] \<and> req_method req = ''GET'')))"
proof (intro conjI impI)
  assume "\<exists>ps l. params = Some ps \<and> map_of ps ''limit'' = Some (QNum l) \<and>
        (l = NegInf \<or> l = PosInf \<or> (\<exists>q. l = Fin q \<and> (q < 1 \<or> 100 < q)))"
  then show "searchTransactions P c params w =
        (Inl (validationError ''Limit must be between 1 and 100''), w)"
    by (auto simp: searchTransactions_def js_gt_def)
next
  assume "params = None \<or>
     (\<exists>ps. params = Some ps \<and>
        (map_of ps ''limit'' = None \<or> map_of ps ''limit'' = Some QUndefined \<or>
         (\<exists>q. map_of ps ''limit'' = Some (QNum (Fin q)) \<and> 1 \<le> q \<and> q \<le> 100)))"
  then show call: "searchTransactions P c params w =
        request P c ''GET'' ''/search'' None params w"
    by (auto simp: searchTransactions_def js_gt_def)
  assume "parseURL P (baseUrl c @ ''/search'') \<noteq> None"
  then obtain u where "parseURL P (baseUrl c @ ''/search'') = Some u"
    by auto
  from request_sends_url [OF this, of "''GET''" None params w] call
  show "\<exists>req. snd (searchTransactions P c params w) = w @ [req] \<and> req_method req = ''GET''"
    by simp
qed

text \<open>
  The query keeps the order in which the caller inserted the properties, and a limit in
  the range is sent.
\<close>

lemma searchTransactions_keeps_order:
  "searchTransactions (examplePlatform exampleSearchOk) exampleClient
       (Some (exampleSearch (Some (Fin 20)))) [] =
     (Inr (JArr []),
      [\<lparr>req_url = \<lparr>href = ''https://sandbox.fapshi.com/search'',
                    searchParams = [(''sort'', ''desc''), (''status'', ''successful''),
                                    (''limit'', ''20''), (''start'', ''2024-01-01'')]\<rparr>,
        req_method = ''GET'',
        req_headers = [(''Content-Type'', ''application/json''), (''apiuser'', ''user''),
                       (''apikey'', ''FAK_TEST_key'')],
        req_body = None\<rparr>])"
  by (simp add: searchTransactions_def js_gt_def example_defs exampleSearchOk_def
                decimal.simps digit_def)

text \<open>
  The case the comparisons miss: \<^verbatim>\<open>NaN < 1\<close> and \<^verbatim>\<open>NaN > 100\<close> are both false, so
  a limit of \<^verbatim>\<open>NaN\<close> passes the check on every platform and the parameters go to the
  shared request operation.
\<close>

lemma searchTransactions_nan_limit:
  "map_of ps ''limit'' = Some (QNum NaN) \<Longrightarrow>
   searchTransactions P c (Some ps) w = request P c ''GET'' ''/search'' None (Some ps) w"
  by (simp add: searchTransactions_def js_gt_def)

text \<open>
  C8. The claim is that \<open>searchTransactions\<close> fails locally, with nothing sent, whenever
  a limit is provided that lies outside the range from 1 to 100; the interface documents
  the limit as 1 to 100 and the error says "Limit must be between 1 and 100". The code
  breaks this at the limit \<^verbatim>\<open>NaN\<close>, a number that is provided and is not in the range:
  the call with the parameters \<^verbatim>\<open>{limit: NaN}\<close> does not fail; it hands
  \<^verbatim>\<open>GET /search\<close> with the query pair \<^verbatim>\<open>limit=NaN\<close> to \<^verbatim>\<open>fetch\<close> and returns the
  answer of the server.
\<close>

theorem searchTransactions_nan_limit_sent:
  "map_of [(''limit'', QNum NaN)] ''limit'' = Some (QNum NaN) \<and>
   searchTransactions (examplePlatform exampleSearchOk) exampleClient
       (Some [(''limit'', QNum NaN)]) [] =
     (Inr (JArr []),
      [\<lparr>req_url = \<lparr>href = ''https://sandbox.fapshi.com/search'',
                    searchParams = [(''limit'', ''NaN'')]\<rparr>,
        req_method = ''GET'',
        req_headers = [(''Content-Type'', ''application/json''), (''apiuser'', ''user''),
                       (''apikey'', ''FAK_TEST_key'')],
        req_body = None\<rparr>])"
  by (simp add: searchTransactions_def js_gt_def example_defs exampleSearchOk_def)

section \<open>Query parameters\<close>

text \<open>
  C9. When the \<^verbatim>\<open>URL\<close> constructor accepts the address, the request that the shared
  operation hands to \<^verbatim>\<open>fetch\<close> carries, after the pairs the address already had, one
  pair for each entry of the query-parameter record whose value is neither
  \<^verbatim>\<open>undefined\<close> nor \<^verbatim>\<open>null\<close>, in the order of the entries and with the value
  stringified; the entries with \<^verbatim>\<open>undefined\<close> or \<^verbatim>\<open>null\<close> leave no pair.
\<close>

theorem request_query_parameters:
  assumes "parseURL P (baseUrl c @ path) = Some u"
  shows "\<exists>req. snd (request P c method path reqBody (Some entries) w) = w @ [req] \<and>
     searchParams (req_url req) =
       searchParams u @
       map (\<lambda>(k, v). (k, toString P v))
         (filter (\<lambda>(k, v). v \<noteq> QUndefined \<and> v \<noteq> QNull) entries)"
  using assms by (simp add: request_def buildRequest_def foldl_appendQuery)

theorem request_query_parameters_witness:
  "\<exists>req. snd (request (examplePlatform exampleOk) exampleClient ''GET'' ''/search'' None
               (Some exampleEntries) []) = [req] \<and>
     searchParams (req_url req) = [(''status'', ''successful''), (''limit'', ''20'')]"
proof -
  have url: "parseURL (examplePlatform exampleOk) (baseUrl exampleClient @ ''/search'') =
     Some \<lparr>href = ''https://sandbox.fapshi.com/search'', searchParams = []\<rparr>"
    by (simp add: example_defs)
  have twenty: "exampleNumToString (Fin 20) = ''20''"
    by (simp add: decimal.simps digit_def)
  from request_query_parameters [OF url, of "''GET''" None exampleEntries "[]"] twenty
  show ?thesis
    by (simp add: exampleEntries_def examplePlatform_def)
qed

section \<open>Responses outside the success range\<close>

text \<open>
  C1, as stated, fails: a response with status 500 whose body is the object with the
  \<^verbatim>\<open>message\<close> field set to the empty string gives an error whose message is not that
  field but the fallback. The code writes \<^verbatim>\<open>error.message || fallback\<close>, so a
  \<^verbatim>\<open>message\<close> that is present but falsy is replaced.
\<close>

theorem request_empty_message_counterexample:
  "getProp (JObj [(''message'', JStr [])]) ''message'' = Some (JStr []) \<and>
   request (examplePlatform exampleEmptyMessage) exampleClient ''GET'' ''/balance'' None None [] =
     (Inl (Fapshi \<lparr>message = JStr ''API request failed with status 500'',
                   statusCode = Some 500\<rparr>),
      [\<lparr>req_url = \<lparr>href = ''https://sandbox.fapshi.com/balance'', searchParams = []\<rparr>,
        req_method = ''GET'',
        req_headers = [(''Content-Type'', ''application/json''), (''apiuser'', ''user''),
                       (''apikey'', ''FAK_TEST_key'')],
        req_body = None\<rparr>])"
  by (simp add: example_defs exampleEmptyMessage_def decimal.simps digit_def)

text \<open>
  C1, amended. When \<^verbatim>\<open>fetch\<close> answers the request of the shared operation with a status
  outside 200 to 299 and a body that parses as JSON to a value other than \<^verbatim>\<open>null\<close>, the
  operation rejects with a \<^verbatim>\<open>FapshiError\<close> whose status code is the status of the
  response, and whose message is the \<^verbatim>\<open>message\<close> field of the body when that field is
  present and truthy (a non-empty string, for instance), and "API request failed with
  status" followed by the status when the field is missing or falsy.
\<close>

theorem request_non2xx_error:
  assumes "buildRequest P c method path reqBody queryParams = Some req"
    and "fetch P req = Responded r"
    and "status r < 200 \<or> 300 \<le> status r"
    and "body r = Inr data" and "data \<noteq> JNull"
  shows "\<exists>e. request P c method path reqBody queryParams w = (Inl (Fapshi e), w @ [req]) \<and>
     statusCode e = Some (status r) \<and>
     (\<forall>v. getProp data ''message'' = Some v \<and> truthy v \<longrightarrow> message e = v) \<and>
     (getProp data ''message'' = None \<or>
      (\<exists>v. getProp data ''message'' = Some v \<and> \<not> truthy v) \<longrightarrow>
        message e = JStr (''API request failed with status '' @ decimal (status r)))"
proof -
  from assms(3) have "\<not> ok r"
    by (auto simp: ok_def)
  with assms(1,2,4,5) show ?thesis
    by (cases "getProp data ''message''") (auto simp: request_def tryBody_def Let_def)
qed

theorem request_non2xx_error_witness:
  "(\<exists>req. request (examplePlatform exampleBadRequest) exampleClient ''POST'' ''/initiate-pay''
            (Some (InitiatePayBody (exampleInitiatePay (Some (Fin 100))))) None [] =
          (Inl (Fapshi \<lparr>message = JStr ''Invalid amount'', statusCode = Some 400\<rparr>), [req])) \<and>
   (\<exists>req. request (examplePlatform exampleUnavailable) exampleClient ''GET'' ''/balance''
            None None [] =
          (Inl (Fapshi \<lparr>message = JStr ''API request failed with status 503'',
                        statusCode = Some 503\<rparr>), [req]))"
proof -
  obtain req1 where req1: "buildRequest (examplePlatform exampleBadRequest) exampleClient ''POST''
       ''/initiate-pay'' (Some (InitiatePayBody (exampleInitiatePay (Some (Fin 100))))) None =
       Some req1"
    by (simp add: example_defs)
  have r1: "fetch (examplePlatform exampleBadRequest) req1 =
      Responded \<lparr>status = 400, body = Inr (JObj [(''message'', JStr ''Invalid amount'')])\<rparr>"
    by (simp add: examplePlatform_def exampleBadRequest_def)
  from request_non2xx_error [OF req1 r1, of "JObj [(''message'', JStr ''Invalid amount'')]" "[]"]
  obtain e1 where e1: "request (examplePlatform exampleBadRequest) exampleClient ''POST''
        ''/initiate-pay'' (Some (InitiatePayBody (exampleInitiatePay (Some (Fin 100))))) None [] =
        (Inl (Fapshi e1), [req1])"
      "statusCode e1 = Some 400" "message e1 = JStr ''Invalid amount''"
    by auto
  obtain req2 where req2: "buildRequest (examplePlatform exampleUnavailable) exampleClient ''GET''
       ''/balance'' None None = Some req2"
    by (simp add: example_defs)
  have r2: "fetch (examplePlatform exampleUnavailable) req2 =
      Responded \<lparr>status = 503, body = Inr (JObj [])\<rparr>"
    by (simp add: examplePlatform_def exampleUnavailable_def)
  have d503: "decimal 503 = ''503''"
    by (simp add: decimal.simps digit_def)
  from request_non2xx_error [OF req2 r2, of "JObj []" "[]"] d503
  obtain e2 where e2: "request (examplePlatform exampleUnavailable) exampleClient ''GET''
        ''/balance'' None None [] = (Inl (Fapshi e2), [req2])"
      "statusCode e2 = Some 503" "message e2 = JStr ''API request failed with status 503''"
    by auto
  from e1 have "e1 = \<lparr>message = JStr ''Invalid amount'', statusCode = Some 400\<rparr>"
    by (cases e1) simp
  moreover from e2 have "e2 = \<lparr>message = JStr ''API request failed with status 503'',
                                statusCode = Some 503\<rparr>"
    by (cases e2) simp
  ultimately show ?thesis
    using e1(1) e2(1) by blast
qed

text \<open>
  What the amended statement leaves out: \<^verbatim>\<open>response.json()\<close> runs before the status is
  looked at, so a response whose body is not JSON, or is \<^verbatim>\<open>null\<close>, gives an error
  without status code, whatever the status.
\<close>

lemma request_error_without_json:
  assumes "buildRequest P c method path reqBody queryParams = Some req"
    and "fetch P req = Responded r"
    and "status r < 200 \<or> 300 \<le> status r"
    and "body r = Inl m \<or> body r = Inr JNull"
  shows "\<exists>e. request P c method path reqBody queryParams w = (Inl (Fapshi e), w @ [req]) \<and>
     statusCode e = None"
proof -
  have none: "\<And>m. statusCode (catchHandler (JsError m)) = None"
    by simp
  from assms(3) have "\<not> ok r"
    by (auto simp: ok_def)
  with assms(1,2,4) none show ?thesis
    by (auto simp: request_def tryBody_def simp del: catchHandler.simps)
qed

section \<open>Transport failures\<close>

text \<open>
  C6. When \<^verbatim>\<open>fetch\<close> rejects with an \<^verbatim>\<open>Error\<close> (no response arrived), the shared
  operation rejects with a \<^verbatim>\<open>FapshiError\<close> that never has a status code. When the
  message of that \<^verbatim>\<open>Error\<close> names the failure as Node does for a DNS failure
  (\<^verbatim>\<open>ENOTFOUND\<close>), a refused connection (\<^verbatim>\<open>ECONNREFUSED\<close>) or a timeout
  (\<^verbatim>\<open>ETIMEDOUT\<close>), or contains \<^verbatim>\<open>failed\<close> or \<^verbatim>\<open>fetch\<close>, the message of the
  \<^verbatim>\<open>FapshiError\<close> is "Network error: Unable to connect to Fapshi API." followed by
  that message.
\<close>

theorem request_transport_failure:
  assumes "buildRequest P c method path reqBody queryParams = Some req"
    and "fetch P req = Rejected (JsError m)"
  shows "\<exists>e. request P c method path reqBody queryParams w = (Inl (Fapshi e), w @ [req]) \<and>
     statusCode e = None \<and>
     (includes_str m ''ENOTFOUND'' \<or> includes_str m ''ECONNREFUSED'' \<or>
      includes_str m ''ETIMEDOUT'' \<or> includes_str m ''failed'' \<or> includes_str m ''fetch'' \<longrightarrow>
        message e = JStr (''Network error: Unable to connect to Fapshi API. '' @ m))"
  using assms by (auto simp: request_def tryBody_def)

theorem request_transport_failure_witness:
  "\<exists>req. request (examplePlatform (Rejected (JsError exampleDnsFailure))) exampleClient
            ''GET'' ''/balance'' None None [] =
          (Inl (Fapshi
             \<lparr>message = JStr (''Network error: Unable to connect to Fapshi API. '' @
                             exampleDnsFailure),
              statusCode = None\<rparr>), [req])"
proof -
  obtain req where req: "buildRequest (examplePlatform (Rejected (JsError exampleDnsFailure)))
       exampleClient ''GET'' ''/balance'' None None = Some req"
    by (simp add: example_defs)
  have rej: "fetch (examplePlatform (Rejected (JsError exampleDnsFailure))) req =
      Rejected (JsError exampleDnsFailure)"
    by (simp add: examplePlatform_def)
  have dns: "includes_str exampleDnsFailure ''ENOTFOUND''"
    by (simp add: exampleDnsFailure_def)
  from request_transport_failure [OF req rej, of "[]"] dns
  obtain e where e: "request (examplePlatform (Rejected (JsError exampleDnsFailure)))
        exampleClient ''GET'' ''/balance'' None None [] = (Inl (Fapshi e), [req])"
      "statusCode e = None"
      "message e = JStr (''Network error: Unable to connect to Fapshi API. '' @ exampleDnsFailure)"
    by auto
  then have "e = \<lparr>message = JStr (''Network error: Unable to connect to Fapshi API. '' @
                             exampleDnsFailure), statusCode = None\<rparr>"
    by (cases e) simp
  with e(1) show ?thesis
    by blast
qed

section \<open>Payment status\<close>

lemma falsy_has_no_property: "\<not> truthy t \<Longrightarrow> getProp t name = None"
  by (cases t) auto

lemma getPaymentStatus_after_success:
  assumes "transId \<noteq> []"
    and "buildRequest P c ''GET'' (''/payment-status/'' @ transId) None None = Some req"
    and "fetch P req = Responded r" and "200 \<le> status r \<and> status r < 300"
    and "body r = Inr t"
  shows "getPaymentStatus P c transId w =
     (if truthy_opt (getProp t ''transId'') then (Inr t, w @ [req])
      else (Inl (Fapshi \<lparr>message = JStr (''No transaction found with ID: '' @ transId),
                         statusCode = Some 404\<rparr>), w @ [req]))"
proof -
  from assms(4) have "ok r"
    by (simp add: ok_def)
  from request_success [OF assms(2,3) this assms(5)]
  have "request P c ''GET'' (''/payment-status/'' @ transId) None None w = (Inr t, w @ [req])" .
  with assms(1) show ?thesis
    by (auto simp: getPaymentStatus_def falsy_has_no_property)
qed

text \<open>
  C5, as stated, fails: a successful response whose result carries a \<^verbatim>\<open>transId\<close> field
  equal to the empty string is not returned; the call rejects with the 404 error. The
  code tests \<^verbatim>\<open>!transaction.transId\<close>, so a \<^verbatim>\<open>transId\<close> that is present but falsy
  counts as missing.
\<close>

theorem getPaymentStatus_empty_transId_counterexample:
  "getProp (JObj [(''transId'', JStr []), (''status'', JStr ''PENDING'')]) ''transId'' =
     Some (JStr []) \<and>
   fst (getPaymentStatus (examplePlatform exampleEmptyTransId) exampleClient ''abc123'' []) =
     Inl (Fapshi \<lparr>message = JStr ''No transaction found with ID: abc123'',
                  statusCode = Some 404\<rparr>)"
  by (simp add: getPaymentStatus_def example_defs exampleEmptyTransId_def)

text \<open>
  C5, amended. For a non-empty transaction id, when the HTTP request succeeds (a status
  from 200 to 299 and a body that parses as JSON): if the result has no \<^verbatim>\<open>transId\<close>
  field, the call rejects with a \<^verbatim>\<open>FapshiError\<close> with status code 404; if the result
  has a truthy \<^verbatim>\<open>transId\<close> (a non-empty string, for instance), the result is returned
  unchanged.
\<close>

theorem getPaymentStatus_result:
  assumes "transId \<noteq> []"
    and "buildRequest P c ''GET'' (''/payment-status/'' @ transId) None None = Some req"
    and "fetch P req = Responded r" and "200 \<le> status r \<and> status r < 300"
    and "body r = Inr t"
  shows "(getProp t ''transId'' = None \<longrightarrow>
            getPaymentStatus P c transId w =
              (Inl (Fapshi \<lparr>message = JStr (''No transaction found with ID: '' @ transId),
                            statusCode = Some 404\<rparr>), w @ [req])) \<and>
         ((\<exists>v. getProp t ''transId'' = Some v \<and> truthy v) \<longrightarrow>
            getPaymentStatus P c transId w = (Inr t, w @ [req]))"
  using getPaymentStatus_after_success [OF assms, of w] by auto

theorem getPaymentStatus_result_witness:
  "(\<exists>req. getPaymentStatus (examplePlatform exampleOk) exampleClient ''abc123'' [] =
       (Inr (JObj [(''transId'', JStr ''abc123'')]), [req])) \<and>
   (\<exists>req. getPaymentStatus (examplePlatform (Responded \<lparr>status = 200, body = Inr (JObj [])\<rparr>))
            exampleClient ''abc123'' [] =
       (Inl (Fapshi \<lparr>message = JStr ''No transaction found with ID: abc123'',
                     statusCode = Some 404\<rparr>), [req]))"
proof -
  have id: "''abc123'' \<noteq> []"
    by simp
  obtain req1 where req1: "buildRequest (examplePlatform exampleOk) exampleClient ''GET''
       (''/payment-status/'' @ ''abc123'') None None = Some req1"
    by (simp add: example_defs)
  have r1: "fetch (examplePlatform exampleOk) req1 =
      Responded \<lparr>status = 200, body = Inr (JObj [(''transId'', JStr ''abc123'')])\<rparr>"
    by (simp add: examplePlatform_def exampleOk_def)
  from getPaymentStatus_result [OF id req1 r1, of "JObj [(''transId'', JStr ''abc123'')]" "[]"]
  have a: "getPaymentStatus (examplePlatform exampleOk) exampleClient ''abc123'' [] =
       (Inr (JObj [(''transId'', JStr ''abc123'')]), [req1])"
    by simp
  obtain req2 where req2: "buildRequest
       (examplePlatform (Responded \<lparr>status = 200, body = Inr (JObj [])\<rparr>)) exampleClient ''GET''
       (''/payment-status/'' @ ''abc123'') None None = Some req2"
    by (simp add: example_defs)
  have r2: "fetch (examplePlatform (Responded \<lparr>status = 200, body = Inr (JObj [])\<rparr>)) req2 =
      Responded \<lparr>status = 200, body = Inr (JObj [])\<rparr>"
    by (simp add: examplePlatform_def)
  from getPaymentStatus_result [OF id req2 r2, of "JObj []" "[]"]
  have b: "getPaymentStatus (examplePlatform (Responded \<lparr>status = 200, body = Inr (JObj [])\<rparr>))
            exampleClient ''abc123'' [] =
       (Inl (Fapshi \<lparr>message = JStr ''No transaction found with ID: abc123'',
                     statusCode = Some 404\<rparr>), [req2])"
    by simp
  from a b show ?thesis
    by blast
qed

text \<open>
  C10. After a successful HTTP request, \<open>getPaymentStatus\<close> rejects with the 404
  \<^verbatim>\<open>FapshiError\<close> whenever the \<^verbatim>\<open>transId\<close> of the result is falsy: when the field is
  missing, when it is present but equal to the empty string, and when the whole body is
  \<^verbatim>\<open>null\<close>. So whatever the platform does, a result that \<open>getPaymentStatus\<close> returns
  has a \<^verbatim>\<open>transId\<close> field that is truthy, and in particular is not the empty string.
\<close>

theorem getPaymentStatus_falsy_transId:
  "(transId \<noteq> [] \<and>
    buildRequest P c ''GET'' (''/payment-status/'' @ transId) None None = Some req \<and>
    fetch P req = Responded r \<and> 200 \<le> status r \<and> status r < 300 \<and> body r = Inr t \<and>
    (\<not> truthy_opt (getProp t ''transId'') \<or> getProp t ''transId'' = Some (JStr []) \<or> t = JNull)
    \<longrightarrow>
      getPaymentStatus P c transId w =
        (Inl (Fapshi \<lparr>message = JStr (''No transaction found with ID: '' @ transId),
                      statusCode = Some 404\<rparr>), w @ [req])) \<and>
   (\<forall>t'. fst (getPaymentStatus P c transId w) = Inr t' \<longrightarrow>
      (\<exists>v. getProp t' ''transId'' = Some v \<and> truthy v \<and> v \<noteq> JStr []))"
proof (intro conjI impI allI)
  assume a: "transId \<noteq> [] \<and>
    buildRequest P c ''GET'' (''/payment-status/'' @ transId) None None = Some req \<and>
    fetch P req = Responded r \<and> 200 \<le> status r \<and> status r < 300 \<and> body r = Inr t \<and>
    (\<not> truthy_opt (getProp t ''transId'') \<or> getProp t ''transId'' = Some (JStr []) \<or> t = JNull)"
  then have falsy: "\<not> truthy_opt (getProp t ''transId'')"
    by auto
  from a have "getPaymentStatus P c transId w =
     (if truthy_opt (getProp t ''transId'') then (Inr t, w @ [req])
      else (Inl (Fapshi \<lparr>message = JStr (''No transaction found with ID: '' @ transId),
                         statusCode = Some 404\<rparr>), w @ [req]))"
    by (intro getPaymentStatus_after_success) auto
  with falsy show "getPaymentStatus P c transId w =
        (Inl (Fapshi \<lparr>message = JStr (''No transaction found with ID: '' @ transId),
                      statusCode = Some 404\<rparr>), w @ [req])"
    by simp
next
  fix t'
  assume "fst (getPaymentStatus P c transId w) = Inr t'"
  then have "truthy_opt (getProp t' ''transId'')"
    by (auto simp: getPaymentStatus_def validationError_def
             split: if_splits prod.splits sum.splits)
  then show "\<exists>v. getProp t' ''transId'' = Some v \<and> truthy v \<and> v \<noteq> JStr []"
    by (cases "getProp t' ''transId''") auto
qed

theorem getPaymentStatus_falsy_transId_witness:
  "(\<exists>req. getPaymentStatus (examplePlatform exampleEmptyTransId) exampleClient ''abc123'' [] =
       (Inl (Fapshi \<lparr>message = JStr ''No transaction found with ID: abc123'',
                     statusCode = Some 404\<rparr>), [req])) \<and>
   (\<exists>req. getPaymentStatus (examplePlatform exampleNullBody) exampleClient ''abc123'' [] =
       (Inl (Fapshi \<lparr>message = JStr ''No transaction found with ID: abc123'',
                     statusCode = Some 404\<rparr>), [req])) \<and>
   fst (getPaymentStatus (examplePlatform exampleOk) exampleClient ''abc123'' []) =
     Inr (JObj [(''transId'', JStr ''abc123'')]) \<and>
   (\<exists>v. getProp (JObj [(''transId'', JStr ''abc123'')]) ''transId'' = Some v \<and> truthy v \<and>
        v \<noteq> JStr [])"
proof -
  obtain req1 where req1: "buildRequest (examplePlatform exampleEmptyTransId) exampleClient ''GET''
       (''/payment-status/'' @ ''abc123'') None None = Some req1"
    by (simp add: example_defs)
  have r1: "fetch (examplePlatform exampleEmptyTransId) req1 =
      Responded \<lparr>status = 200,
                 body = Inr (JObj [(''transId'', JStr []), (''status'', JStr ''PENDING'')])\<rparr>"
    by (simp add: examplePlatform_def exampleEmptyTransId_def)
  from req1 r1 getPaymentStatus_falsy_transId
     [of "''abc123''" "examplePlatform exampleEmptyTransId" exampleClient req1
         "\<lparr>status = 200,
           body = Inr (JObj [(''transId'', JStr []), (''status'', JStr ''PENDING'')])\<rparr>"
         "JObj [(''transId'', JStr []), (''status'', JStr ''PENDING'')]" "[]"]
  have a: "getPaymentStatus (examplePlatform exampleEmptyTransId) exampleClient ''abc123'' [] =
       (Inl (Fapshi \<lparr>message = JStr ''No transaction found with ID: abc123'',
                     statusCode = Some 404\<rparr>), [req1])"
    by simp
  obtain req2 where req2: "buildRequest (examplePlatform exampleNullBody) exampleClient ''GET''
       (''/payment-status/'' @ ''abc123'') None None = Some req2"
    by (simp add: example_defs)
  have r2: "fetch (examplePlatform exampleNullBody) req2 =
      Responded \<lparr>status = 200, body = Inr JNull\<rparr>"
    by (simp add: examplePlatform_def exampleNullBody_def)
  from req2 r2 getPaymentStatus_falsy_transId
     [of "''abc123''" "examplePlatform exampleNullBody" exampleClient req2
         "\<lparr>status = 200, body = Inr JNull\<rparr>" JNull "[]"]
  have b: "getPaymentStatus (examplePlatform exampleNullBody) exampleClient ''abc123'' [] =
       (Inl (Fapshi \<lparr>message = JStr ''No transaction found with ID: abc123'',
                     statusCode = Some 404\<rparr>), [req2])"
    by simp
  have c: "fst (getPaymentStatus (examplePlatform exampleOk) exampleClient ''abc123'' []) =
     Inr (JObj [(''transId'', JStr ''abc123'')])"
    by (simp add: getPaymentStatus_def example_defs)
  from c getPaymentStatus_falsy_transId
     [of "''abc123''" "examplePlatform exampleOk" exampleClient _ _ _ "[]"]
  have d: "\<exists>v. getProp (JObj [(''transId'', JStr ''abc123'')]) ''transId'' = Some v \<and> truthy v \<and>
        v \<noteq> JStr []"
    by blast
  from a b c d show ?thesis
    by blast
qed

end
